theory Spec2Isabelle
  imports Complex_Main
begin

section \<open>Conventions of the embedding\<close>

text \<open>
  The repository is a Python simulation of a micro-reactor under drum control:
  \<^verbatim>\<open>reactor.py\<close> (drum table and reactor DAE), \<^verbatim>\<open>controller.py\<close> (supertwisting and PID
  controllers) and \<^verbatim>\<open>run.py\<close> (explicit Euler loop).

  Python floats are embedded as the real numbers \<^typ>\<open>real\<close>: arithmetic is exact, there is
  no rounding, no infinity and no NaN. Decimal literals of the source are the rationals they
  denote (\<^verbatim>\<open>26.11e-5\<close> is \<open>26.11 / 10 ^ 5\<close>). The drum count is a Python integer, \<^typ>\<open>int\<close>.

  Every \<^verbatim>\<open>raise\<close> of the source, and every exception the interpreter raises by itself
  (a missing dictionary key, an index out of range, a division by zero on Python numbers),
  is a value \<open>Inl e\<close> of the result type \<open>error + 'a\<close>.
\<close>

datatype error =
    ValueError string
  | KeyError string
  | IndexError
  | ZeroDivisionError

definition bind :: "error + 'a \<Rightarrow> ('a \<Rightarrow> error + 'b) \<Rightarrow> error + 'b" where
  "bind m f = (case m of Inl e \<Rightarrow> Inl e | Inr v \<Rightarrow> f v)"

text \<open>Python's \<^verbatim>\<open>a / b\<close> on numbers: a zero divisor raises.\<close>

definition py_div :: "real \<Rightarrow> real \<Rightarrow> error + real" where
  "py_div a b = (if b = 0 then Inl ZeroDivisionError else Inr (a / b))"

text \<open>Python's \<^verbatim>\<open>d[k]\<close> and \<^verbatim>\<open>d.get(k, default)\<close> on a dictionary.\<close>

definition getitem :: "(string \<rightharpoonup> real) \<Rightarrow> string \<Rightarrow> error + real" where
  "getitem d k = (case d k of None \<Rightarrow> Inl (KeyError k) | Some v \<Rightarrow> Inr v)"

definition get_default :: "(string \<rightharpoonup> real) \<Rightarrow> string \<Rightarrow> real \<Rightarrow> real" where
  "get_default d k dflt = (case d k of None \<Rightarrow> dflt | Some v \<Rightarrow> v)"

section \<open>reactor.py\<close>

subsection \<open>\<^verbatim>\<open>get_drum_params\<close>\<close>

text \<open>The result is the tuple \<^verbatim>\<open>(Rho_d0, Reactivity_per_degree, u0, W)\<close>.\<close>

definition get_drum_params :: "int \<Rightarrow> real \<times> real \<times> real \<times> real" where
  "get_drum_params num_drums =
     (if num_drums = 8 then
        (- 0.033085599, 26.11 / 10 ^ 5, 77.56, 0.06)
      else if num_drums = 4 then
        (- 0.033085599 + 0.013980296, 16.11 / 10 ^ 5, 108.5, 0.1)
      else if num_drums = 2 then
        (- 0.033085599 + 0.0074, 7.33 / 10 ^ 5, 165.5, 0.2)
      else if num_drums = 1 then
        (- 0.033085599 + 0.0071 + 0.0082, 2.77 / 10 ^ 5, 170, 0.49)
      else
        (- 0.033085599, 26.11 / 10 ^ 5, 77.56, 0.04))"

subsection \<open>Class \<^verbatim>\<open>Reactor\<close>\<close>

text \<open>
  The field \<^verbatim>\<open>self.x\<close> (a copy of the initial state that no method reads) is called
  \<open>x_copy\<close> here, so that \<open>x\<close> stays free for variables.
\<close>

record Reactor =
  num_drums :: int
  params :: "string \<rightharpoonup> real"
  x_copy :: "real list"

definition Reactor_init :: "int \<Rightarrow> real list \<Rightarrow> (string \<rightharpoonup> real) \<Rightarrow> Reactor" where
  "Reactor_init n initial_state parameters =
     \<lparr> num_drums = n, params = parameters, x_copy = initial_state \<rparr>"

text \<open>
  The physical constants are locals of \<^verbatim>\<open>reactor_dae\<close>; the ones the reactivity formula
  uses are named here so that statements about the formula can refer to them.
\<close>

definition Sig_x :: real where "Sig_x = 2.65 / 10 ^ 22"
definition Sum_f :: real where "Sum_f = 0.3358"
definition T_in :: real where "T_in = 864"
definition T_out :: real where "T_out = 1106"
definition alpha_f :: real where "alpha_f = - 2.875 / 10 ^ 5"
definition alpha_m :: real where "alpha_m = - 3.696 / 10 ^ 5"
definition alpha_c :: real where "alpha_c = 0.0"

text \<open>
  \<^verbatim>\<open>reactor_dae(self, t, x, u)\<close>, in the order of the source: the five mandatory dictionary
  reads (lines 56 to 60), the two conduction coefficients with their divisions (lines 101 and
  102), the twelve reads of the state vector (lines 109 to 120, which need twelve entries),
  the reactivity with its branch on the drum count (lines 124 to 131), and the twelve
  derivatives (lines 133 to 146). The result is the pair \<^verbatim>\<open>(dx, rho)\<close>.
\<close>

definition reactor_dae :: "Reactor \<Rightarrow> real \<Rightarrow> real list \<Rightarrow> real \<Rightarrow> error + (real list \<times> real)" where
  "reactor_dae self t xv u =
     bind (getitem (params self) ''Rho_d0'') (\<lambda>Rho_d0.
     bind (getitem (params self) ''Reactivity_per_degree'') (\<lambda>Reactivity_per_degree.
     bind (getitem (params self) ''Xe0'') (\<lambda>Xe0.
     bind (getitem (params self) ''I0'') (\<lambda>I0.
     bind (getitem (params self) ''Pi'') (\<lambda>Pi.
       let yi = 0.061 :: real;
           yx = 0.002 :: real;
           lamda_x = 2.09 / 10 ^ 5 :: real;
           lamda_I = 2.87 / 10 ^ 5 :: real;
           l = 1.68 / 10 ^ 3 :: real;
           beta = 0.0048 :: real;
           beta_1 = 1.42481 / 10 ^ 4 :: real;
           beta_2 = 9.24281 / 10 ^ 4 :: real;
           beta_3 = 7.79956 / 10 ^ 4 :: real;
           beta_4 = 2.06583 / 10 ^ 3 :: real;
           beta_5 = 6.71175 / 10 ^ 4 :: real;
           beta_6 = 2.17806 / 10 ^ 4 :: real;
           Lamda_1 = 1.272 / 10 ^ 2 :: real;
           Lamda_2 = 3.174 / 10 ^ 2 :: real;
           Lamda_3 = 1.160 / 10 :: real;
           Lamda_4 = 3.110 / 10 :: real;
           Lamda_5 = 1.400 :: real;
           Lamda_6 = 3.870 :: real;
           cp_f = 977 :: real;
           cp_m = 1697 :: real;
           cp_c = 5188.6 :: real;
           M_f = 2002 :: real;
           M_m = 11573 :: real;
           M_c = 500 :: real;
           mu_f = M_f * cp_f;
           mu_m = M_m * cp_m;
           mu_c = M_c * cp_c;
           f_f = 0.96 :: real;
           P_0 = 22 * 10 ^ 6 :: real;
           Tf0 = get_default (params self) ''Tf0'' 1105;
           Tm0 = get_default (params self) ''Tm0'' 1087;
           Tc0 = (T_in + T_out) / 2
       in
     bind (py_div (f_f * P_0) (Tf0 - Tm0)) (\<lambda>K_fm.
     bind (py_div P_0 (Tm0 - Tc0)) (\<lambda>K_mc.
       let M_dot = 1.75 * 10 :: real in
       if length xv < 12 then Inl IndexError
       else
         let n_r = xv ! 0;
             Cr1 = xv ! 1;
             Cr2 = xv ! 2;
             Cr3 = xv ! 3;
             Cr4 = xv ! 4;
             Cr5 = xv ! 5;
             Cr6 = xv ! 6;
             X = xv ! 7;
             I = xv ! 8;
             Tf = xv ! 9;
             Tm = xv ! 10;
             Tc = xv ! 11;
             Rho_d1 = Rho_d0 + u * Reactivity_per_degree
         in
     bind (if num_drums self \<in> set [8, 2, 1] then
             Inr (Rho_d1 + alpha_f * (Tf - Tf0) + alpha_c * (Tc - Tc0) +
                  alpha_m * (Tm - Tm0) - Sig_x * (X - Xe0) / Sum_f)
           else if num_drums self = 4 then
             Inr (Rho_d1 + alpha_f * (Tf - 900.42) + alpha_c * (Tc - 888.261) +
                  alpha_m * (Tm - 898.261) - Sig_x * (X - Xe0) / Sum_f)
           else Inl (ValueError ''Invalid number of drums specified.'')) (\<lambda>rho.
       Inr ([ ((rho - beta) / l) * n_r + (beta_1 / l) * Cr1 + (beta_2 / l) * Cr2 +
                (beta_3 / l) * Cr3 + (beta_4 / l) * Cr4 + (beta_5 / l) * Cr5 + (beta_6 / l) * Cr6,
              Lamda_1 * n_r - Lamda_1 * Cr1,
              Lamda_2 * n_r - Lamda_2 * Cr2,
              Lamda_3 * n_r - Lamda_3 * Cr3,
              Lamda_4 * n_r - Lamda_4 * Cr4,
              Lamda_5 * n_r - Lamda_5 * Cr5,
              Lamda_6 * n_r - Lamda_6 * Cr6,
              0.002 * Sum_f * Pi + lamda_I * I - Sig_x * X * Pi - lamda_x * X,
              yi * Sum_f * Pi - lamda_I * I,
              f_f * P_0 / mu_f * n_r - K_fm / mu_f * (Tf - Tc),
              (1 - f_f) * P_0 / mu_m * n_r + (K_fm * (Tf - Tm) - K_mc * (Tm - Tc)) / mu_m,
              K_mc * (Tm - Tc) / mu_c - 2 * M_dot * cp_c * (Tc - T_in) / mu_c ],
            rho)))))))))"

section \<open>controller.py\<close>

text \<open>
  Both classes end \<^verbatim>\<open>update\<close> with the same two blocks, \<^verbatim>\<open># Saturation limits\<close> and
  \<^verbatim>\<open># Rate limiting\<close> (lines 38 to 50 and 91 to 103). They are written once here, as
  functions of the values the blocks read.
\<close>

definition saturation :: "real \<Rightarrow> real \<Rightarrow> real \<Rightarrow> real" where
  "saturation max_v min_v command =
     (if command > max_v then max_v
      else if command < min_v then min_v
      else command)"

definition rate_limiting :: "real \<Rightarrow> real \<Rightarrow> real \<Rightarrow> real \<Rightarrow> real" where
  "rate_limiting sat_prev rate T command_sat =
     (if command_sat > sat_prev + rate * T then sat_prev + rate * T
      else if command_sat < sat_prev - rate * T then sat_prev - rate * T
      else command_sat)"

text \<open>The filtered derivative (lines 30 and 31, and 83 and 84).\<close>

definition denominator :: "real \<Rightarrow> real \<Rightarrow> real" where
  "denominator T tc = (if T + tc \<noteq> 0 then T + tc else tc)"

definition filtered_derivative :: "real \<Rightarrow> real \<Rightarrow> real \<Rightarrow> real \<Rightarrow> real \<Rightarrow> error + real" where
  "filtered_derivative err e_prev tc d_prev T =
     py_div (err - e_prev + tc * d_prev) (denominator T tc)"

subsection \<open>Class \<^verbatim>\<open>STCController\<close>\<close>

text \<open>
  The field \<^verbatim>\<open>self.u\<close>, the accumulated switching term, is called \<open>u_acc\<close> here, so that
  \<open>u\<close> stays free for variables; \<^verbatim>\<open>self.lambda_\<close> is \<open>lambda\<close>, as a name cannot end with an
  underscore.
\<close>

record STCController =
  lambda :: real
  W :: real
  T_C :: real
  max_val :: real
  min_val :: real
  max_rate :: real
  u_acc :: real
  err_prev :: real
  t_prev :: real
  deriv_prev :: real
  command_sat_prev :: real
  command_prev :: real

definition STCController_init ::
  "real \<Rightarrow> real \<Rightarrow> real \<Rightarrow> real \<Rightarrow> real \<Rightarrow> real \<Rightarrow> real \<Rightarrow> STCController" where
  "STCController_init lam w tc maxv minv rate u0 =
     \<lparr> lambda = lam, W = w, T_C = tc, max_val = maxv, min_val = minv, max_rate = rate,
       u_acc = u0, err_prev = 0, t_prev = 0, deriv_prev = 0,
       command_sat_prev = u0, command_prev = u0 \<rparr>"

text \<open>
  \<^verbatim>\<open>STCController.update\<close>, lines 28 to 36: the state after line 36 and the raw
  \<^verbatim>\<open>command\<close>. The division of line 31 comes before the first assignment to a field, so
  an exception there leaves the object as it was.
\<close>

definition STC_command ::
  "STCController \<Rightarrow> real \<Rightarrow> real \<Rightarrow> real \<Rightarrow> error + (STCController \<times> real)" where
  "STC_command self t measurement setpoint =
     (let err = setpoint - measurement;
          T = t - t_prev self
      in bind (filtered_derivative err (err_prev self) (T_C self) (deriv_prev self) T)
           (\<lambda>deriv_filt.
              let s = err + deriv_filt;
                  u_new = u_acc self + W self * sgn s * T;
                  command = lambda self * sqrt \<bar>s\<bar> * sgn s + u_new
              in Inr (self\<lparr> err_prev := err, deriv_prev := deriv_filt, u_acc := u_new \<rparr>,
                      command)))"

text \<open>Lines 38 to 54: saturation, rate limiting, the two last assignments and the return.\<close>

definition STC_update ::
  "STCController \<Rightarrow> real \<Rightarrow> real \<Rightarrow> real \<Rightarrow> error + (STCController \<times> real)" where
  "STC_update self t measurement setpoint =
     bind (STC_command self t measurement setpoint) (\<lambda>(self1, command).
       let T = t - t_prev self;
           command_sat = saturation (max_val self1) (min_val self1) command;
           command_sat = rate_limiting (command_sat_prev self1) (max_rate self1) T command_sat
       in Inr (self1\<lparr> command_sat_prev := command_sat, t_prev := t \<rparr>, command_sat))"

subsection \<open>Class \<^verbatim>\<open>PIDController\<close>\<close>

record PIDController =
  Kp :: real
  Ki :: real
  Kd :: real
  Kaw :: real
  T_C :: real
  max_val :: real
  min_val :: real
  max_rate :: real
  integral :: real
  err_prev :: real
  t_prev :: real
  deriv_prev :: real
  command_prev :: real
  command_sat_prev :: real

definition PIDController_init ::
  "real \<Rightarrow> real \<Rightarrow> real \<Rightarrow> real \<Rightarrow> real \<Rightarrow> real \<Rightarrow> real \<Rightarrow> real \<Rightarrow> real \<Rightarrow> PIDController" where
  "PIDController_init kp ki kd kaw tc maxv minv rate u0 =
     \<lparr> Kp = kp, Ki = ki, Kd = kd, Kaw = kaw, T_C = tc, max_val = maxv, min_val = minv,
       max_rate = rate, integral = u0, err_prev = 0, t_prev = 0, deriv_prev = 0,
       command_prev = u0, command_sat_prev = u0 \<rparr>"

text \<open>
  \<^verbatim>\<open>PIDController.update\<close>, lines 75 to 81: the object after the assignments to
  \<^verbatim>\<open>t_prev\<close> and \<^verbatim>\<open>integral\<close>, which come before the division of line 84.
\<close>

definition PID_integrate :: "PIDController \<Rightarrow> real \<Rightarrow> real \<Rightarrow> real \<Rightarrow> PIDController" where
  "PID_integrate self t measurement setpoint =
     (let err = setpoint - measurement;
          T_period = t - t_prev self
      in self\<lparr> t_prev := t,
               integral := integral self + Ki self * err * T_period +
                           Kaw self * (command_sat_prev self - command_prev self) * T_period \<rparr>)"

text \<open>
  Lines 75 to 89: the state after line 89 and the raw \<^verbatim>\<open>command\<close>. When the division
  raises, the object has gone through \<open>PID_integrate\<close> already; the lemma
  \<open>PID_integrate_at_zero_denominator\<close> below shows that it is then unchanged, which is why the
  error carries no state.
\<close>

definition PID_command ::
  "PIDController \<Rightarrow> real \<Rightarrow> real \<Rightarrow> real \<Rightarrow> error + (PIDController \<times> real)" where
  "PID_command self t measurement setpoint =
     (let err = setpoint - measurement;
          T_period = t - t_prev self;
          self1 = PID_integrate self t measurement setpoint
      in bind (filtered_derivative err (err_prev self1) (T_C self1) (deriv_prev self1) T_period)
           (\<lambda>deriv_filt.
              let command = Kp self1 * err + integral self1 + Kd self1 * deriv_filt
              in Inr (self1\<lparr> err_prev := err, deriv_prev := deriv_filt,
                             command_prev := command \<rparr>, command)))"

text \<open>Lines 91 to 106.\<close>

definition PID_update ::
  "PIDController \<Rightarrow> real \<Rightarrow> real \<Rightarrow> real \<Rightarrow> error + (PIDController \<times> real)" where
  "PID_update self t measurement setpoint =
     bind (PID_command self t measurement setpoint) (\<lambda>(self1, command).
       let T_period = t - t_prev self;
           command_sat = saturation (max_val self1) (min_val self1) command;
           command_sat = rate_limiting (command_sat_prev self1) (max_rate self1) T_period command_sat
       in Inr (self1\<lparr> command_sat_prev := command_sat \<rparr>, command_sat))"

subsection \<open>The controller object of \<^verbatim>\<open>run.py\<close>\<close>

text \<open>
  \<^verbatim>\<open>run.py\<close> holds one object of either class in the variable \<^verbatim>\<open>controller\<close> and calls
  its \<^verbatim>\<open>update\<close>; the fields both classes have are read through the functions below.
\<close>

datatype Controller = STC STCController | PID PIDController

fun update :: "Controller \<Rightarrow> real \<Rightarrow> real \<Rightarrow> real \<Rightarrow> error + (Controller \<times> real)" where
  "update (STC self) t measurement setpoint =
     bind (STC_update self t measurement setpoint) (\<lambda>(self1, command_sat). Inr (STC self1, command_sat))"
| "update (PID self) t measurement setpoint =
     bind (PID_update self t measurement setpoint) (\<lambda>(self1, command_sat). Inr (PID self1, command_sat))"

fun field_T_C :: "Controller \<Rightarrow> real" where
  "field_T_C (STC self) = STCController.T_C self"
| "field_T_C (PID self) = PIDController.T_C self"

fun field_max_val :: "Controller \<Rightarrow> real" where
  "field_max_val (STC self) = STCController.max_val self"
| "field_max_val (PID self) = PIDController.max_val self"

fun field_min_val :: "Controller \<Rightarrow> real" where
  "field_min_val (STC self) = STCController.min_val self"
| "field_min_val (PID self) = PIDController.min_val self"

fun field_max_rate :: "Controller \<Rightarrow> real" where
  "field_max_rate (STC self) = STCController.max_rate self"
| "field_max_rate (PID self) = PIDController.max_rate self"

fun field_t_prev :: "Controller \<Rightarrow> real" where
  "field_t_prev (STC self) = STCController.t_prev self"
| "field_t_prev (PID self) = PIDController.t_prev self"

fun field_err_prev :: "Controller \<Rightarrow> real" where
  "field_err_prev (STC self) = STCController.err_prev self"
| "field_err_prev (PID self) = PIDController.err_prev self"

fun field_deriv_prev :: "Controller \<Rightarrow> real" where
  "field_deriv_prev (STC self) = STCController.deriv_prev self"
| "field_deriv_prev (PID self) = PIDController.deriv_prev self"

fun field_command_sat_prev :: "Controller \<Rightarrow> real" where
  "field_command_sat_prev (STC self) = STCController.command_sat_prev self"
| "field_command_sat_prev (PID self) = PIDController.command_sat_prev self"

text \<open>
  A sequence of calls \<^verbatim>\<open>update(t, measurement, setpoint)\<close> on one object. An exception ends
  the sequence, as it ends the run in \<^verbatim>\<open>run.py\<close>, where nothing catches it:
  \<open>returned_commands\<close> lists the commands returned up to there, \<open>states_after\<close> the states of
  the object after each call that returned.
\<close>

fun returned_commands :: "Controller \<Rightarrow> (real \<times> real \<times> real) list \<Rightarrow> real list" where
  "returned_commands c [] = []"
| "returned_commands c ((t, measurement, setpoint) # calls) =
     (case update c t measurement setpoint of
        Inl e \<Rightarrow> []
      | Inr (c1, command_sat) \<Rightarrow> command_sat # returned_commands c1 calls)"

fun states_after :: "Controller \<Rightarrow> (real \<times> real \<times> real) list \<Rightarrow> Controller list" where
  "states_after c [] = []"
| "states_after c ((t, measurement, setpoint) # calls) =
     (case update c t measurement setpoint of
        Inl e \<Rightarrow> []
      | Inr (c1, command_sat) \<Rightarrow> c1 # states_after c1 calls)"

section \<open>run.py\<close>

text \<open>
  The simulation loop of \<^verbatim>\<open>main\<close> (lines 105 to 122). \<^verbatim>\<open>main\<close> fixes the drum count, the
  controller, the time grid \<^verbatim>\<open>time\<close> (of length \<^verbatim>\<open>nt\<close>), the reference \<^verbatim>\<open>ref\<close>, the step
  \<^verbatim>\<open>dt\<close>, the initial state \<^verbatim>\<open>x0\<close> and the initial command \<^verbatim>\<open>u0\<close> in its first hundred
  lines; they are the parameters of \<open>simulate\<close>. The three preallocated arrays are lists,
  written by index.
\<close>

record History =
  state_history :: "real list list"
  control_history :: "real list"
  rho_history :: "real list"

text \<open>Python's \<^verbatim>\<open>xs[i]\<close> on a sequence, for an index that is not negative.\<close>

definition getidx :: "'a list \<Rightarrow> nat \<Rightarrow> error + 'a" where
  "getidx xs i = (if i < length xs then Inr (xs ! i) else Inl IndexError)"

text \<open>
  Line 117, \<^verbatim>\<open>state_history[i, :] + dx * dt\<close>: numpy adds two arrays of one shape
  entry by entry and raises when the shapes differ (\<^verbatim>\<open>dx\<close> has twelve entries, and a row
  of any other length cannot take the sum).
\<close>

definition euler :: "real list \<Rightarrow> real list \<Rightarrow> real \<Rightarrow> error + real list" where
  "euler row dx dt =
     (if length row = length dx then Inr (map2 (\<lambda>a d. a + d * dt) row dx)
      else Inl (ValueError ''operands could not be broadcast together''))"

text \<open>Lines 115 to 119, the body of the loop at index \<open>i\<close>.\<close>

definition loop_body ::
  "Reactor \<Rightarrow> real list \<Rightarrow> real list \<Rightarrow> real \<Rightarrow> nat \<Rightarrow> Controller \<times> History
     \<Rightarrow> error + (Controller \<times> History)" where
  "loop_body reactor_sim time ref dt i st =
     (case st of (controller, h) \<Rightarrow>
        bind (reactor_dae reactor_sim (time ! i) (state_history h ! i) (control_history h ! i))
          (\<lambda>(dx, rho_val).
        let h1 = h\<lparr> rho_history := (rho_history h)[i := rho_val] \<rparr> in
        bind (euler (state_history h1 ! i) dx dt) (\<lambda>row.
        let h2 = h1\<lparr> state_history := (state_history h1)[i + 1 := row] \<rparr> in
        bind (getidx ref (i + 1)) (\<lambda>r.
        bind (update controller (time ! i) (state_history h2 ! (i + 1) ! 0) r)
          (\<lambda>(controller1, command_sat).
        Inr (controller1,
             h2\<lparr> control_history := (control_history h2)[i + 1 := command_sat] \<rparr>))))))"

text \<open>\<^verbatim>\<open>for i in ...:\<close> over a list of indices; an exception leaves the loop.\<close>

fun for_loop :: "(nat \<Rightarrow> 's \<Rightarrow> error + 's) \<Rightarrow> nat list \<Rightarrow> 's \<Rightarrow> error + 's" where
  "for_loop body [] s = Inr s"
| "for_loop body (i # indices) s = bind (body i s) (for_loop body indices)"

text \<open>
  Lines 105 to 122. With an empty time grid the first write, \<^verbatim>\<open>state_history[0, :] = x0\<close>,
  is out of range. In the loop \<open>i + 1 < nt\<close>, so every read of \<^verbatim>\<open>time\<close> and of the three
  arrays is in range; \<^verbatim>\<open>ref\<close> is checked as it is read.
\<close>

definition simulate ::
  "Reactor \<Rightarrow> Controller \<Rightarrow> real list \<Rightarrow> real list \<Rightarrow> real \<Rightarrow> real list \<Rightarrow> real
     \<Rightarrow> error + (Controller \<times> History)" where
  "simulate reactor_sim controller time ref dt x0 u0 =
     (let nt = length time;
          h = \<lparr> state_history = replicate nt (replicate (length x0) 0),
                control_history = replicate nt 0,
                rho_history = replicate nt 0 \<rparr>
      in if nt = 0 then Inl IndexError
         else
           let h = h\<lparr> state_history := (state_history h)[0 := x0] \<rparr>;
               h = h\<lparr> control_history := (control_history h)[0 := u0] \<rparr>
           in bind (for_loop (loop_body reactor_sim time ref dt) [0..<nt - 1] (controller, h))
                (\<lambda>(controller1, h1).
              bind (reactor_dae reactor_sim (last time) (last (state_history h1))
                      (last (control_history h1)))
                (\<lambda>(dx, rho_val).
              Inr (controller1, h1\<lparr> rho_history := (rho_history h1)[nt - 1 := rho_val] \<rparr>))))"

section \<open>Notions used in the statements\<close>

subsection \<open>The drum table\<close>

definition drum_Reactivity_per_degree :: "int \<Rightarrow> real" where
  "drum_Reactivity_per_degree n =
     (case get_drum_params n of (Rho_d0, Reactivity_per_degree, u0, w) \<Rightarrow> Reactivity_per_degree)"

definition drum_u0 :: "int \<Rightarrow> real" where
  "drum_u0 n = (case get_drum_params n of (Rho_d0, Reactivity_per_degree, u0, w) \<Rightarrow> u0)"

definition drum_W :: "int \<Rightarrow> real" where
  "drum_W n = (case get_drum_params n of (Rho_d0, Reactivity_per_degree, u0, w) \<Rightarrow> w)"

subsection \<open>The reactivity formula\<close>

text \<open>
  The anchor temperatures as the specification describes them: the configured \<^verbatim>\<open>Tf0\<close> and
  \<^verbatim>\<open>Tm0\<close> (1105 and 1087 when the dictionary has no such key) and the mean coolant
  temperature, or the three constants of the four-drum case.
\<close>

definition Tf_anchor :: "Reactor \<Rightarrow> real" where
  "Tf_anchor r = (if num_drums r = 4 then 900.42 else get_default (params r) ''Tf0'' 1105)"

definition Tm_anchor :: "Reactor \<Rightarrow> real" where
  "Tm_anchor r = (if num_drums r = 4 then 898.261 else get_default (params r) ''Tm0'' 1087)"

definition Tc_anchor :: "Reactor \<Rightarrow> real" where
  "Tc_anchor r = (if num_drums r = 4 then 888.261 else (T_in + T_out) / 2)"

text \<open>
  What \<^verbatim>\<open>reactor_dae\<close> needs before it reaches the branch on the drum count: the five
  mandatory keys, the two temperature differences it divides by, and twelve state entries.
\<close>

definition reactor_inputs_ok :: "Reactor \<Rightarrow> real list \<Rightarrow> bool" where
  "reactor_inputs_ok r xv \<longleftrightarrow>
     params r ''Rho_d0'' \<noteq> None \<and> params r ''Reactivity_per_degree'' \<noteq> None \<and>
     params r ''Xe0'' \<noteq> None \<and> params r ''I0'' \<noteq> None \<and> params r ''Pi'' \<noteq> None \<and>
     get_default (params r) ''Tf0'' 1105 \<noteq> get_default (params r) ''Tm0'' 1087 \<and>
     get_default (params r) ''Tm0'' 1087 \<noteq> (T_in + T_out) / 2 \<and>
     12 \<le> length xv"

subsection \<open>The stages of a controller call\<close>

text \<open>The raw command of a call, before saturation and rate limiting.\<close>

fun raw_command :: "Controller \<Rightarrow> real \<Rightarrow> real \<Rightarrow> real \<Rightarrow> error + real" where
  "raw_command (STC self) t measurement setpoint =
     bind (STC_command self t measurement setpoint) (\<lambda>(self1, command). Inr command)"
| "raw_command (PID self) t measurement setpoint =
     bind (PID_command self t measurement setpoint) (\<lambda>(self1, command). Inr command)"

text \<open>A block is active when one of its two tests succeeds and it replaces the command.\<close>

definition saturation_active :: "real \<Rightarrow> real \<Rightarrow> real \<Rightarrow> bool" where
  "saturation_active max_v min_v command \<longleftrightarrow> command > max_v \<or> command < min_v"

definition rate_limiting_active :: "real \<Rightarrow> real \<Rightarrow> real \<Rightarrow> real \<Rightarrow> bool" where
  "rate_limiting_active sat_prev rate T command_sat \<longleftrightarrow>
     command_sat > sat_prev + rate * T \<or> command_sat < sat_prev - rate * T"

fun limits_never_active :: "Controller \<Rightarrow> (real \<times> real \<times> real) list \<Rightarrow> bool" where
  "limits_never_active c [] = True"
| "limits_never_active c ((t, measurement, setpoint) # calls) =
     (case raw_command c t measurement setpoint of
        Inl e \<Rightarrow> True
      | Inr command \<Rightarrow>
          \<not> saturation_active (field_max_val c) (field_min_val c) command \<and>
          \<not> rate_limiting_active (field_command_sat_prev c) (field_max_rate c) (t - field_t_prev c)
              (saturation (field_max_val c) (field_min_val c) command) \<and>
          (case update c t measurement setpoint of
             Inl e \<Rightarrow> True
           | Inr (c1, command_sat) \<Rightarrow> limits_never_active c1 calls))"

text \<open>
  A supertwisting controller without switching and corrective gain whose accumulator and
  previous command are the admissible value \<open>u0\<close>; a PID controller at rest at \<open>u0\<close>.
\<close>

definition STC_holding :: "real \<Rightarrow> STCController \<Rightarrow> bool" where
  "STC_holding u0 s \<longleftrightarrow>
     lambda s = 0 \<and> W s = 0 \<and> u_acc s = u0 \<and> STCController.command_sat_prev s = u0 \<and>
     STCController.min_val s \<le> u0 \<and> u0 \<le> STCController.max_val s \<and>
     0 \<le> STCController.max_rate s"

definition PID_at_rest :: "real \<Rightarrow> PIDController \<Rightarrow> bool" where
  "PID_at_rest u0 s \<longleftrightarrow>
     integral s = u0 \<and> command_prev s = u0 \<and> command_sat_prev s = u0 \<and>
     err_prev s = 0 \<and> deriv_prev s = 0"

subsection \<open>The closed loop as the specification states it\<close>


subsection \<open>Example inputs\<close>

definition example_params :: "string \<rightharpoonup> real" where
  "example_params =
     [''Rho_d0'' \<mapsto> - 0.017785599, ''Reactivity_per_degree'' \<mapsto> 2.77 / 10 ^ 5,
      ''Xe0'' \<mapsto> 2, ''I0'' \<mapsto> 3, ''Pi'' \<mapsto> 1, ''Tf0'' \<mapsto> 1105, ''Tm0'' \<mapsto> 1087]"

definition example_state :: "real list" where
  "example_state = [0.9, 0.9, 0.9, 0.9, 0.9, 0.9, 0.9, 3, 2, 897, 895, 881]"

section \<open>Basic facts\<close>

lemma bind_Inr_iff: "bind m f = Inr v \<longleftrightarrow> (\<exists>a. m = Inr a \<and> f a = Inr v)"
  by (cases m) (simp_all add: bind_def)

lemma bind_Inr [simp]: "bind (Inr a) f = f a"
  by (simp add: bind_def)

lemma bind_Inl [simp]: "bind (Inl e) f = Inl e"
  by (simp add: bind_def)

lemma getitem_Some [simp]: "d k = Some v \<Longrightarrow> getitem d k = Inr v"
  by (simp add: getitem_def)

lemma py_div_nonzero [simp]: "b \<noteq> 0 \<Longrightarrow> py_div a b = Inr (a / b)"
  by (simp add: py_div_def)

section \<open>Properties of reactor.py\<close>

text \<open>
  Claim C1. For each drum count in 8, 4, 2, 1 \<^verbatim>\<open>get_drum_params\<close> returns the tabulated tuple
  (the sums of the source's literals are written out); from eight drums down to one the
  baseline position \<open>u0\<close> and the switching gain \<open>W\<close> strictly increase and the reactivity per
  degree strictly decreases; every other count gets the eight-drum reactivity and position
  with the gain 0.04, where eight drums have 0.06.
\<close>

theorem get_drum_params_table:
  "get_drum_params 8 = (- 0.033085599, 26.11 / 10 ^ 5, 77.56, 0.06) \<and>
   get_drum_params 4 = (- 0.019105303, 16.11 / 10 ^ 5, 108.5, 0.1) \<and>
   get_drum_params 2 = (- 0.025685599, 7.33 / 10 ^ 5, 165.5, 0.2) \<and>
   get_drum_params 1 = (- 0.017785599, 2.77 / 10 ^ 5, 170, 0.49) \<and>
   drum_u0 8 < drum_u0 4 \<and> drum_u0 4 < drum_u0 2 \<and> drum_u0 2 < drum_u0 1 \<and>
   drum_W 8 < drum_W 4 \<and> drum_W 4 < drum_W 2 \<and> drum_W 2 < drum_W 1 \<and>
   drum_Reactivity_per_degree 8 > drum_Reactivity_per_degree 4 \<and>
   drum_Reactivity_per_degree 4 > drum_Reactivity_per_degree 2 \<and>
   drum_Reactivity_per_degree 2 > drum_Reactivity_per_degree 1 \<and>
   drum_W 8 = 0.06 \<and>
   (\<forall>n. n \<notin> {8, 4, 2, 1} \<longrightarrow>
        get_drum_params n = (- 0.033085599, 26.11 / 10 ^ 5, 77.56, 0.04) \<and>
        drum_W n = 0.04)"
  by (simp add: get_drum_params_def drum_u0_def drum_W_def drum_Reactivity_per_degree_def)

theorem get_drum_params_table_witness:
  "(3::int) \<notin> {8, 4, 2, 1} \<and>
   get_drum_params 3 = (- 0.033085599, 26.11 / 10 ^ 5, 77.56, 0.04) \<and>
   drum_W 3 = 0.04 \<and> drum_W 8 = 0.06"
  using get_drum_params_table by simp

text \<open>When \<^verbatim>\<open>reactor_dae\<close> returns, its inputs were complete and the drum count supported.\<close>

lemma reactor_dae_Inr:
  assumes "reactor_dae r t xv u = Inr (dx, rho)"
  shows "reactor_inputs_ok r xv \<and> num_drums r \<in> {8, 4, 2, 1}"
  using assms
  unfolding reactor_dae_def Let_def bind_Inr_iff reactor_inputs_ok_def
  by (auto simp: getitem_def py_div_def split: option.splits if_splits)

lemma reactor_dae_unsupported:
  assumes "reactor_inputs_ok r xv" and "num_drums r \<notin> {8, 4, 2, 1}"
  shows "reactor_dae r t xv u = Inl (ValueError ''Invalid number of drums specified.'')"
  using assms
  by (auto simp add: reactor_inputs_ok_def reactor_dae_def Let_def)

text \<open>
  Claim C2. For a state vector of twelve entries and any actuator position \<open>u\<close>,
  \<^verbatim>\<open>reactor_dae\<close> returns the reactivity
  \<open>Rho_d0 + u * Reactivity_per_degree + alpha_f * (Tf - Tf_anchor) + alpha_m * (Tm - Tm_anchor)
   + alpha_c * (Tc - Tc_anchor) - (Sig_x / Sum_f) * (X - Xe0)\<close>,
  with the configured anchors for 8, 2 and 1 drums and the three constants for 4 drums. The
  call returns at all only on the inputs of \<open>reactor_inputs_ok\<close> (lemma \<open>reactor_dae_Inr\<close>).
\<close>

theorem reactor_dae_reactivity:
  assumes "params r ''Rho_d0'' = Some Rho_d0"
    and "params r ''Reactivity_per_degree'' = Some Reactivity_per_degree"
    and "params r ''Xe0'' = Some Xe0"
    and "reactor_inputs_ok r xv"
    and "length xv = 12"
    and "num_drums r \<in> {8, 2, 1} \<or> num_drums r = 4"
  shows "\<exists>dx. reactor_dae r t xv u =
           Inr (dx, Rho_d0 + u * Reactivity_per_degree
                    + alpha_f * (xv ! 9 - Tf_anchor r)
                    + alpha_m * (xv ! 10 - Tm_anchor r)
                    + alpha_c * (xv ! 11 - Tc_anchor r)
                    - (Sig_x / Sum_f) * (xv ! 7 - Xe0))"
  using assms
  by (auto simp add: reactor_inputs_ok_def reactor_dae_def Let_def
      Tf_anchor_def Tm_anchor_def Tc_anchor_def)

theorem reactor_dae_reactivity_witness:
  "reactor_inputs_ok (Reactor_init 1 example_state example_params) example_state \<and>
   length example_state = 12 \<and>
   (\<exists>dx. reactor_dae (Reactor_init 1 example_state example_params) 0 example_state 170 =
           Inr (dx, - (18737640000000053 / 67160000000000000000000)))"
proof -
  have ok: "reactor_inputs_ok (Reactor_init 1 example_state example_params) example_state"
    by (simp add: Reactor_init_def reactor_inputs_ok_def example_params_def example_state_def
        get_default_def T_in_def T_out_def)
  have len: "length example_state = 12"
    by (simp add: example_state_def)
  have "\<exists>dx. reactor_dae (Reactor_init 1 example_state example_params) 0 example_state 170 =
           Inr (dx, - 0.017785599 + 170 * (2.77 / 10 ^ 5)
                    + alpha_f * (example_state ! 9 - Tf_anchor (Reactor_init 1 example_state example_params))
                    + alpha_m * (example_state ! 10 - Tm_anchor (Reactor_init 1 example_state example_params))
                    + alpha_c * (example_state ! 11 - Tc_anchor (Reactor_init 1 example_state example_params))
                    - (Sig_x / Sum_f) * (example_state ! 7 - 2))"
    by (rule reactor_dae_reactivity [OF _ _ _ ok len])
       (simp_all add: Reactor_init_def example_params_def)
  then show ?thesis
    using ok len
    by (simp add: Reactor_init_def example_params_def example_state_def get_default_def
        Tf_anchor_def Tm_anchor_def Tc_anchor_def alpha_f_def alpha_m_def alpha_c_def
        Sig_x_def Sum_f_def T_in_def T_out_def)
qed

text \<open>
  Claim C3. With a drum count outside 1, 2, 4, 8 every call of \<^verbatim>\<open>reactor_dae\<close> ends in an
  exception and returns neither derivatives nor reactivity; on complete inputs the exception
  is the \<^verbatim>\<open>ValueError\<close> of line 131.
\<close>

theorem reactor_dae_invalid_num_drums:
  assumes "num_drums r \<notin> {1, 2, 4, 8}"
  shows "(\<exists>e. reactor_dae r t xv u = Inl e) \<and>
         (reactor_inputs_ok r xv \<longrightarrow>
            reactor_dae r t xv u = Inl (ValueError ''Invalid number of drums specified.''))"
proof
  show "\<exists>e. reactor_dae r t xv u = Inl e"
  proof (cases "reactor_dae r t xv u")
    case (Inl e)
    then show ?thesis by blast
  next
    case (Inr p)
    then have "num_drums r \<in> {8, 4, 2, 1}"
      using reactor_dae_Inr [of r t xv u "fst p" "snd p"] by simp
    with assms show ?thesis by auto
  qed
next
  show "reactor_inputs_ok r xv \<longrightarrow>
            reactor_dae r t xv u = Inl (ValueError ''Invalid number of drums specified.'')"
    using assms reactor_dae_unsupported [of r xv t u] by auto
qed

theorem reactor_dae_invalid_num_drums_witness:
  "num_drums (Reactor_init 3 example_state example_params) \<notin> {1, 2, 4, 8} \<and>
   reactor_inputs_ok (Reactor_init 3 example_state example_params) example_state \<and>
   reactor_dae (Reactor_init 3 example_state example_params) 0 example_state 170
     = Inl (ValueError ''Invalid number of drums specified.'')"
proof -
  have a: "num_drums (Reactor_init 3 example_state example_params) \<notin> {1, 2, 4, 8}"
    by (simp add: Reactor_init_def)
  have b: "reactor_inputs_ok (Reactor_init 3 example_state example_params) example_state"
    by (simp add: Reactor_init_def reactor_inputs_ok_def example_params_def example_state_def
        get_default_def T_in_def T_out_def)
  from reactor_dae_invalid_num_drums [OF a, of 0 example_state 170] a b show ?thesis by blast
qed

section \<open>Properties of controller.py\<close>

subsection \<open>The filtered derivative\<close>

lemma denominator_zero_iff: "denominator T tc = 0 \<longleftrightarrow> T = 0 \<and> tc = 0"
  by (auto simp: denominator_def)

lemma filtered_derivative_cases:
  "filtered_derivative err e_prev tc d_prev T =
     (if T = 0 \<and> tc = 0 then Inl ZeroDivisionError
      else Inr ((err - e_prev + tc * d_prev) / denominator T tc))"
  by (simp add: filtered_derivative_def py_div_def denominator_zero_iff)

text \<open>
  Away from \<open>T = 0\<close>, \<open>T_C = 0\<close> the value is the quotient of the specification, with the sum
  \<open>T + T_C\<close> as denominator unless it is zero, and \<open>T_C\<close> then.
\<close>

lemma filtered_derivative_value:
  assumes "T \<noteq> 0 \<or> tc \<noteq> 0"
  shows "filtered_derivative err e_prev tc d_prev T =
           Inr ((err - e_prev + tc * d_prev) / (if T + tc \<noteq> 0 then T + tc else tc))"
  using assms by (auto simp: filtered_derivative_cases denominator_def)

text \<open>
  When the denominator is zero the elapsed time is zero, so the two assignments that
  \<^verbatim>\<open>PIDController.update\<close> makes before its division have changed nothing.
\<close>

lemma PID_integrate_at_zero_denominator:
  "denominator (t - PIDController.t_prev self) (PIDController.T_C self) = 0 \<Longrightarrow>
   PID_integrate self t measurement setpoint = self"
  by (simp add: denominator_zero_iff PID_integrate_def)

text \<open>
  For an elapsed time and a time constant that are not negative, the guard of lines 30 and 83
  applies only when both are zero, and the denominator it then chooses is zero as well.
\<close>

lemma denominator_guard_nonneg:
  assumes "0 \<le> T" and "0 \<le> tc" and "T + tc = 0"
  shows "denominator T tc = 0"
  using assms by (simp add: denominator_def)

text \<open>
  Claim C4. The quotient is as the claim gives it (lemma \<open>filtered_derivative_value\<close>), but
  the guard of lines 30 and 83 falls back to \<open>T_C\<close>, which is itself zero for a controller
  built with \<open>T_C = 0\<close>: its call at the stored previous time, here the first call at
  \<open>t = 0\<close>, divides by zero. With Python numbers that is a \<^verbatim>\<open>ZeroDivisionError\<close>; with
  numpy scalars the same division, 0 by 0 here, gives a NaN and a warning.
\<close>

theorem PID_update_divides_by_zero:
  "PID_update (PIDController_init 2 5 0.001 0.3 0 180 0 0.5 170) 0 0.9 0.9 = Inl ZeroDivisionError"
  by (simp add: PIDController_init_def PID_update_def PID_command_def PID_integrate_def
      filtered_derivative_def py_div_def denominator_def Let_def)

subsection \<open>Saturation and rate limiting\<close>

lemma limiter_within:
  assumes "lo \<le> prev" and "prev \<le> hi" and "0 \<le> rate * T"
  shows "lo \<le> rate_limiting prev rate T (saturation hi lo y) \<and>
         rate_limiting prev rate T (saturation hi lo y) \<le> hi"
  using assms by (auto simp: rate_limiting_def saturation_def)

lemma rate_limiting_bound:
  assumes "0 \<le> rate * T"
  shows "\<bar>rate_limiting prev rate T y - prev\<bar> \<le> rate * T"
  using assms by (auto simp: rate_limiting_def)

lemma rate_limiting_zero: "rate_limiting prev rate 0 y = prev"
  by (auto simp: rate_limiting_def)

lemma saturation_inactive: "lo \<le> y \<Longrightarrow> y \<le> hi \<Longrightarrow> saturation hi lo y = y"
  by (simp add: saturation_def)

lemma rate_limiting_inactive:
  assumes "0 \<le> rate" and "tp \<le> t"
  shows "rate_limiting prev rate (t - tp) prev = prev"
proof -
  have "0 \<le> rate * (t - tp)"
    using assms by (intro mult_nonneg_nonneg) simp_all
  then show ?thesis
    unfolding rate_limiting_def by auto
qed

subsection \<open>One call\<close>

lemma update_raises:
  assumes "t = field_t_prev c" and "field_T_C c = 0"
  shows "update c t m sp = Inl ZeroDivisionError"
  using assms
  by (cases c)
     (simp_all add: STC_update_def STC_command_def PID_update_def PID_command_def
        PID_integrate_def filtered_derivative_cases Let_def)

lemma update_returns:
  assumes "t \<noteq> field_t_prev c \<or> field_T_C c \<noteq> 0"
  shows "\<exists>c1 u. update c t m sp = Inr (c1, u)"
  using assms
  by (cases c)
     (auto simp add: STC_update_def STC_command_def PID_update_def PID_command_def
        PID_integrate_def filtered_derivative_cases Let_def)

text \<open>
  What a returning call does to the fields both classes have: the command is the raw command
  saturated and then rate limited against the previous saturated command, it becomes the new
  previous saturated command, and the limits stay as they are.
\<close>

lemma update_Inr:
  assumes "update c t m sp = Inr (c1, u)"
  shows "\<exists>command. raw_command c t m sp = Inr command \<and>
            u = rate_limiting (field_command_sat_prev c) (field_max_rate c) (t - field_t_prev c)
                  (saturation (field_max_val c) (field_min_val c) command)"
    and "field_max_val c1 = field_max_val c"
    and "field_min_val c1 = field_min_val c"
    and "field_max_rate c1 = field_max_rate c"
    and "field_T_C c1 = field_T_C c"
    and "field_t_prev c1 = t"
    and "field_command_sat_prev c1 = u"
  using assms
  by (cases c;
      auto simp add: STC_update_def STC_command_def PID_update_def PID_command_def
        PID_integrate_def filtered_derivative_cases Let_def split: if_splits)+

lemma update_within:
  assumes "update c t m sp = Inr (c1, u)"
    and "field_min_val c \<le> field_command_sat_prev c"
    and "field_command_sat_prev c \<le> field_max_val c"
    and "0 \<le> field_max_rate c" and "field_t_prev c \<le> t"
  shows "field_min_val c \<le> u \<and> u \<le> field_max_val c"
proof -
  from update_Inr(1) [OF assms(1)] obtain command where
    u: "u = rate_limiting (field_command_sat_prev c) (field_max_rate c) (t - field_t_prev c)
                  (saturation (field_max_val c) (field_min_val c) command)"
    by blast
  have "0 \<le> field_max_rate c * (t - field_t_prev c)"
    using assms(4,5) by simp
  then show ?thesis
    unfolding u using limiter_within assms(2,3) by blast
qed

text \<open>
  A call at the stored previous time returns the previous saturated command, whatever the
  measurement and the setpoint, on a controller whose \<open>T_C\<close> is not zero.
\<close>

lemma update_zero_elapsed:
  assumes "t = field_t_prev c" and "field_T_C c \<noteq> 0"
  shows "\<exists>c1. update c t m sp = Inr (c1, field_command_sat_prev c)"
proof -
  obtain c1 u where step: "update c t m sp = Inr (c1, u)"
    using update_returns [of t c m sp] assms(2) by blast
  from update_Inr(1) [OF step] have "u = field_command_sat_prev c"
    using assms(1) by (auto simp: rate_limiting_zero)
  with step show ?thesis by blast
qed

subsection \<open>Sequences of calls\<close>

lemma returned_commands_length:
  assumes "field_T_C c \<noteq> 0"
  shows "length (returned_commands c calls) = length calls"
  using assms
proof (induction calls arbitrary: c)
  case Nil
  then show ?case by simp
next
  case (Cons call calls)
  obtain t m sp where call: "call = (t, m, sp)" by (cases call) auto
  obtain c1 u where step: "update c t m sp = Inr (c1, u)"
    using update_returns [of t c m sp] Cons.prems by blast
  have "field_T_C c1 \<noteq> 0" using update_Inr(5) [OF step] Cons.prems by simp
  then show ?case using Cons.IH [of c1] step by (simp add: call)
qed

text \<open>
  Claim C5, as amended. The claim as stated fails: the rate limiter runs after the saturation
  and pulls the command towards the previous one, so a controller built with \<open>u0\<close> outside
  \<open>[min_val, max_val]\<close> returns \<open>u0\<close> at its first call, and a call at a time before the
  previous one, or a negative \<open>max_rate\<close>, moves an admissible command out of the interval.

  What holds: when the previous saturated command (\<open>u0\<close> after construction) lies in
  \<open>[min_val, max_val]\<close>, \<open>max_rate\<close> is not negative and the call times do not decrease, starting
  at or after the stored previous time (0 after construction), every returned command lies in
  \<open>[min_val, max_val]\<close>, for both classes and any measurements and setpoints.
\<close>

theorem commands_within_limits:
  assumes "field_min_val c \<le> field_command_sat_prev c"
    and "field_command_sat_prev c \<le> field_max_val c"
    and "0 \<le> field_max_rate c"
    and "sorted (field_t_prev c # map fst calls)"
  shows "\<forall>u \<in> set (returned_commands c calls). field_min_val c \<le> u \<and> u \<le> field_max_val c"
  using assms
proof (induction calls arbitrary: c)
  case Nil
  then show ?case by simp
next
  case (Cons call calls)
  obtain t m sp where call: "call = (t, m, sp)"
    by (cases call) auto
  show ?case
  proof (cases "update c t m sp")
    case (Inl e)
    then show ?thesis by (simp add: call)
  next
    case (Inr p)
    obtain c1 u where p: "p = (c1, u)" by (cases p) auto
    have step: "update c t m sp = Inr (c1, u)" using Inr p by simp
    have le: "field_t_prev c \<le> t" using Cons.prems(4) by (simp add: call)
    have u: "field_min_val c \<le> u \<and> u \<le> field_max_val c"
      using update_within [OF step Cons.prems(1,2,3) le] .
    have srt: "sorted (field_t_prev c1 # map fst calls)"
      using Cons.prems(4) update_Inr(6) [OF step] by (simp add: call)
    have "\<forall>v \<in> set (returned_commands c1 calls). field_min_val c1 \<le> v \<and> v \<le> field_max_val c1"
      using Cons.IH [of c1] u Cons.prems(3) srt update_Inr [OF step] by simp
    then show ?thesis
      using u step update_Inr(2,3) [OF step] by (simp add: call)
  qed
qed

theorem commands_within_limits_witness:
  "returned_commands (PID (PIDController_init 2 5 0.001 0.3 0.2 180 0 0.5 170))
     [(0, 1, 0.9), (0.1, 1, 0.9)] = [170, 169.95] \<and>
   list_all (\<lambda>u. 0 \<le> u \<and> u \<le> 180)
     (returned_commands (PID (PIDController_init 2 5 0.001 0.3 0.2 180 0 0.5 170))
        [(0, 1, 0.9), (0.1, 1, 0.9)])"
proof -
  have run: "returned_commands (PID (PIDController_init 2 5 0.001 0.3 0.2 180 0 0.5 170))
     [(0, 1, 0.9), (0.1, 1, 0.9)] = [170, 169.95]"
    by (simp add: PIDController_init_def PID_update_def PID_command_def PID_integrate_def
        filtered_derivative_def py_div_def denominator_def saturation_def rate_limiting_def Let_def)
  have "\<forall>u \<in> set (returned_commands (PID (PIDController_init 2 5 0.001 0.3 0.2 180 0 0.5 170))
                 [(0, 1, 0.9), (0.1, 1, 0.9)]).
          field_min_val (PID (PIDController_init 2 5 0.001 0.3 0.2 180 0 0.5 170)) \<le> u \<and>
          u \<le> field_max_val (PID (PIDController_init 2 5 0.001 0.3 0.2 180 0 0.5 170))"
    by (rule commands_within_limits) (simp_all add: PIDController_init_def)
  then have "list_all (\<lambda>u. 0 \<le> u \<and> u \<le> 180)
     (returned_commands (PID (PIDController_init 2 5 0.001 0.3 0.2 180 0 0.5 170))
        [(0, 1, 0.9), (0.1, 1, 0.9)])"
    unfolding list_all_iff by (simp add: PIDController_init_def del: returned_commands.simps)
  with run show ?thesis by blast
qed

theorem commands_outside_limits:
  "returned_commands (STC (STCController_init 0.001 0.49 0.5 180 0 0.5 200)) [(0, 1, 1)] = [200] \<and>
   \<not> 200 \<le> field_max_val (STC (STCController_init 0.001 0.49 0.5 180 0 0.5 200)) \<and>
   returned_commands (STC (STCController_init 0.001 0.49 0.5 180 0 0.5 0.25)) [(1, 1, 1), (0, 1, 1)]
     = [0.25, - 0.25] \<and>
   \<not> field_min_val (STC (STCController_init 0.001 0.49 0.5 180 0 0.5 0.25)) \<le> - 0.25 \<and>
   returned_commands (STC (STCController_init 0.001 0.49 0.5 180 0 (- 0.5) 0.25)) [(1, 1, 1)]
     = [- 0.25] \<and>
   \<not> field_min_val (STC (STCController_init 0.001 0.49 0.5 180 0 (- 0.5) 0.25)) \<le> - 0.25"
  by (simp add: STCController_init_def STC_update_def STC_command_def filtered_derivative_def
      py_div_def denominator_def saturation_def rate_limiting_def Let_def)

text \<open>
  Claim C6, as amended. With a negative \<open>max_rate\<close> the bound \<open>max_rate * T\<close> is negative and
  the limiter moves the command by \<open>\<bar>max_rate\<bar> * T\<close>, beyond the bound by more than any small
  tolerance; the claim holds for \<open>max_rate \<ge> 0\<close>, with its tolerance. For two consecutive calls
  at \<open>t1\<close> and \<open>t2\<close> of one controller with \<open>t2 - t1 > 0\<close>, the first returning \<open>u1\<close>, and for
  every tolerance \<open>eps \<ge> 0\<close>: the second call returns a command \<open>u2\<close> with
  \<open>\<bar>u2 - u1\<bar> \<le> max_rate * (t2 - t1) + eps\<close>, which is the raw command, saturated first and then
  rate limited against \<open>u1\<close>, and which becomes the new previous saturated command. Over the
  reals of this embedding \<open>eps\<close> may be zero; the tolerance of the claim is the room that the
  rounding of \<open>u1 - max_rate * T\<close> and of the difference needs in floating point, which the
  embedding does not represent.
\<close>

theorem rate_limit_between_calls:
  assumes "update c t1 m1 sp1 = Inr (c1, u1)"
    and "0 \<le> field_max_rate c"
    and "t2 - t1 > 0"
    and "0 \<le> eps"
  shows "\<exists>c2 u2 command.
           update c1 t2 m2 sp2 = Inr (c2, u2) \<and>
           \<bar>u2 - u1\<bar> \<le> field_max_rate c * (t2 - t1) + eps \<and>
           raw_command c1 t2 m2 sp2 = Inr command \<and>
           u2 = rate_limiting u1 (field_max_rate c) (t2 - t1)
                  (saturation (field_max_val c) (field_min_val c) command) \<and>
           field_command_sat_prev c2 = u2"
proof -
  note f = update_Inr [OF assms(1)]
  have "t2 \<noteq> field_t_prev c1" using f(6) assms(3) by simp
  then obtain c2 u2 where step: "update c1 t2 m2 sp2 = Inr (c2, u2)"
    using update_returns [of t2 c1 m2 sp2] by blast
  from update_Inr(1) [OF step] obtain command where
    raw: "raw_command c1 t2 m2 sp2 = Inr command" and
    u2: "u2 = rate_limiting u1 (field_max_rate c) (t2 - t1)
                  (saturation (field_max_val c) (field_min_val c) command)"
    using f by auto
  have "0 \<le> field_max_rate c * (t2 - t1)" using assms(2,3) by simp
  then have "\<bar>u2 - u1\<bar> \<le> field_max_rate c * (t2 - t1)"
    unfolding u2 by (rule rate_limiting_bound)
  then have "\<bar>u2 - u1\<bar> \<le> field_max_rate c * (t2 - t1) + eps"
    using assms(4) by simp
  then show ?thesis
    using step raw u2 update_Inr(7) [OF step] by blast
qed

theorem rate_limit_between_calls_witness:
  "update (PID (PIDController_init 2 5 0.001 0.3 0.2 180 0 0.5 170)) 0 0.9 0.9
     = Inr (PID (PIDController_init 2 5 0.001 0.3 0.2 180 0 0.5 170), 170) \<and>
   raw_command (PID (PIDController_init 2 5 0.001 0.3 0.2 180 0 0.5 170)) 0.1 1 0.9
     = Inr (509249 / 3000) \<and>
   rate_limiting_active 170 0.5 (0.1 - 0) (saturation 180 0 (509249 / 3000)) \<and>
   (\<exists>c2 u2. update (PID (PIDController_init 2 5 0.001 0.3 0.2 180 0 0.5 170)) 0.1 1 0.9
               = Inr (c2, u2) \<and>
             u2 = 169.95 \<and> field_command_sat_prev c2 = 169.95 \<and>
             \<bar>u2 - 170\<bar> \<le> 0.5 * (0.1 - 0) + 1 / 10 ^ 9)"
proof -
  let ?c = "PID (PIDController_init 2 5 0.001 0.3 0.2 180 0 0.5 170)"
  have a: "update ?c 0 0.9 0.9 = Inr (?c, 170)"
    by (simp add: PIDController_init_def PID_update_def PID_command_def PID_integrate_def
        filtered_derivative_def py_div_def denominator_def saturation_def rate_limiting_def Let_def)
  have b: "0 \<le> field_max_rate ?c"
    by (simp add: PIDController_init_def)
  have c: "0.1 - (0::real) > 0" by simp
  have e: "(0::real) \<le> 1 / 10 ^ 9" by simp
  have raw: "raw_command ?c 0.1 1 0.9 = Inr (509249 / 3000)"
    by (simp add: PIDController_init_def PID_command_def PID_integrate_def
        filtered_derivative_def py_div_def denominator_def Let_def)
  have act: "rate_limiting_active 170 0.5 (0.1 - 0) (saturation 180 0 (509249 / 3000))"
    by (simp add: rate_limiting_active_def saturation_def)
  from rate_limit_between_calls [OF a b c e, of 1 "0.9"] obtain c2 u2 command where
    step: "update ?c 0.1 1 0.9 = Inr (c2, u2)" and
    bound: "\<bar>u2 - 170\<bar> \<le> field_max_rate ?c * (0.1 - 0) + 1 / 10 ^ 9" and
    cmd: "raw_command ?c 0.1 1 0.9 = Inr command" and
    u2: "u2 = rate_limiting 170 (field_max_rate ?c) (0.1 - 0)
               (saturation (field_max_val ?c) (field_min_val ?c) command)" and
    prev: "field_command_sat_prev c2 = u2"
    by blast
  have "command = 509249 / 3000" using raw cmd by simp
  then have v: "u2 = 169.95"
    using u2 by (simp add: PIDController_init_def saturation_def rate_limiting_def)
  have "\<bar>u2 - 170\<bar> \<le> 0.5 * (0.1 - 0) + 1 / 10 ^ 9"
    using bound by (simp add: PIDController_init_def)
  with step v prev have
    "\<exists>c2 u2. update ?c 0.1 1 0.9 = Inr (c2, u2) \<and> u2 = 169.95 \<and>
        field_command_sat_prev c2 = 169.95 \<and> \<bar>u2 - 170\<bar> \<le> 0.5 * (0.1 - 0) + 1 / 10 ^ 9"
    by blast
  with a raw act show ?thesis by blast
qed

theorem negative_max_rate_exceeds_bound:
  "returned_commands (STC (STCController_init 0.001 0.49 0.5 180 0 (- 0.5) 170))
     [(0, 1, 1), (1, 1, 1)] = [170, 169.5] \<and>
   \<not> \<bar>169.5 - 170\<bar>
       \<le> field_max_rate (STC (STCController_init 0.001 0.49 0.5 180 0 (- 0.5) 170)) * (1 - 0) \<and>
   \<not> \<bar>169.5 - 170\<bar>
       \<le> field_max_rate (STC (STCController_init 0.001 0.49 0.5 180 0 (- 0.5) 170)) * (1 - 0)
           + 0.999"
  by (simp add: STCController_init_def STC_update_def STC_command_def filtered_derivative_def
      py_div_def denominator_def saturation_def rate_limiting_def Let_def)

subsection \<open>The PID controller at zero tracking error\<close>

lemma PID_command_at_rest:
  assumes "PID_at_rest u0 s" and "PID_command s t m m = Inr (s1, command)"
  shows "command = u0 \<and> integral s1 = u0 \<and> command_prev s1 = u0 \<and> command_sat_prev s1 = u0 \<and>
         err_prev s1 = 0 \<and> deriv_prev s1 = 0"
  using assms
  by (auto simp add: PID_at_rest_def PID_command_def PID_integrate_def filtered_derivative_cases
      Let_def split: if_splits)

lemma PID_at_rest_step:
  assumes "PID_at_rest u0 s"
    and "limits_never_active (PID s) ((t, m, m) # calls)"
    and "update (PID s) t m m = Inr (c1, u)"
  shows "u = u0 \<and> (\<exists>s1. c1 = PID s1 \<and> PID_at_rest u0 s1) \<and> limits_never_active c1 calls"
proof -
  from assms(3) obtain s0 command where
    cmd: "PID_command s t m m = Inr (s0, command)"
    by (auto simp: PID_update_def bind_Inr_iff)
  note r = PID_command_at_rest [OF assms(1) cmd]
  have cfg: "max_val s0 = max_val s" "min_val s0 = min_val s" "max_rate s0 = max_rate s"
    using cmd
    by (auto simp add: PID_command_def PID_integrate_def filtered_derivative_cases Let_def
        split: if_splits)
  have prev: "command_sat_prev s = u0" using assms(1) by (simp add: PID_at_rest_def)
  have na: "\<not> saturation_active (max_val s) (min_val s) u0"
    "\<not> rate_limiting_active u0 (max_rate s) (t - t_prev s) (saturation (max_val s) (min_val s) u0)"
    "limits_never_active c1 calls"
    using assms(2,3) cmd r prev by simp_all
  have sat: "saturation (max_val s) (min_val s) u0 = u0"
    using na(1) by (auto simp: saturation_active_def saturation_def)
  have rl: "rate_limiting u0 (max_rate s) (t - t_prev s) u0 = u0"
    using na(2) unfolding sat by (auto simp: rate_limiting_active_def rate_limiting_def)
  have "u = u0 \<and> c1 = PID (s0\<lparr>command_sat_prev := u0\<rparr>)"
    using assms(3) cmd r cfg sat rl by (auto simp: PID_update_def Let_def)
  then show ?thesis
    using r na(3) by (simp add: PID_at_rest_def)
qed

lemma PID_at_rest_run:
  assumes "PID_at_rest u0 s"
    and "\<forall>call \<in> set calls. fst (snd call) = snd (snd call)"
    and "limits_never_active (PID s) calls"
  shows "(\<forall>u \<in> set (returned_commands (PID s) calls). u = u0) \<and>
         (\<forall>c \<in> set (states_after (PID s) calls).
            \<exists>s1. c = PID s1 \<and> integral s1 = u0 \<and> command_prev s1 = command_sat_prev s1)"
  using assms
proof (induction calls arbitrary: s)
  case Nil
  then show ?case by simp
next
  case (Cons call calls)
  obtain t m where call: "call = (t, m, m)"
    using Cons.prems(2) by (cases call) auto
  show ?case
  proof (cases "update (PID s) t m m")
    case (Inl e)
    then show ?thesis by (simp add: call)
  next
    case (Inr p)
    obtain c1 u where p: "p = (c1, u)" by (cases p) auto
    have step: "update (PID s) t m m = Inr (c1, u)" using Inr p by simp
    from PID_at_rest_step [OF Cons.prems(1) Cons.prems(3) [unfolded call] step] obtain s1 where
      u: "u = u0" and c1: "c1 = PID s1" and r1: "PID_at_rest u0 s1"
      and na: "limits_never_active (PID s1) calls"
      by blast
    have eq: "\<forall>call \<in> set calls. fst (snd call) = snd (snd call)"
      using Cons.prems(2) by simp
    have f: "integral s1 = u0 \<and> command_prev s1 = command_sat_prev s1"
      using r1 by (simp add: PID_at_rest_def)
    from Cons.IH [OF r1 eq na] show ?thesis
      using step u c1 f by (simp add: call del: update.simps)
  qed
qed

text \<open>
  Claim C7. On a PID controller as constructed, for every sequence of calls with the
  measurement equal to the setpoint at each call and with neither saturation nor rate limiting
  active at any call: after every call the integral is still \<open>u0\<close> and the stored raw and
  saturated commands coincide, and every returned command equals the one returned before it
  (\<open>u0\<close> for the first call).
\<close>

theorem PID_zero_error_at_rest:
  assumes "\<forall>call \<in> set calls. fst (snd call) = snd (snd call)"
    and "limits_never_active (PID (PIDController_init kp ki kd kaw tc maxv minv rate u0)) calls"
  shows "(\<forall>c \<in> set (states_after (PID (PIDController_init kp ki kd kaw tc maxv minv rate u0)) calls).
            \<exists>s1. c = PID s1 \<and> integral s1 = u0 \<and> command_prev s1 = command_sat_prev s1) \<and>
         (\<forall>i < length (returned_commands (PID (PIDController_init kp ki kd kaw tc maxv minv rate u0)) calls).
            returned_commands (PID (PIDController_init kp ki kd kaw tc maxv minv rate u0)) calls ! i =
            (u0 # returned_commands (PID (PIDController_init kp ki kd kaw tc maxv minv rate u0)) calls) ! i)"
proof -
  let ?c = "PID (PIDController_init kp ki kd kaw tc maxv minv rate u0)"
  have r: "PID_at_rest u0 (PIDController_init kp ki kd kaw tc maxv minv rate u0)"
    by (simp add: PID_at_rest_def PIDController_init_def)
  note run = PID_at_rest_run [OF r assms]
  have all: "\<forall>i < length (returned_commands ?c calls). returned_commands ?c calls ! i = u0"
    using run by simp
  have "\<forall>i < length (returned_commands ?c calls).
          (u0 # returned_commands ?c calls) ! i = u0"
  proof (intro allI impI)
    fix i assume "i < length (returned_commands ?c calls)"
    then show "(u0 # returned_commands ?c calls) ! i = u0"
      using all by (cases i) simp_all
  qed
  with all run show ?thesis by simp
qed

theorem PID_zero_error_at_rest_witness:
  "limits_never_active (PID (PIDController_init 2 5 0.001 0.3 0.2 180 0 0.5 170))
     [(0, 0.9, 0.9), (0.1, 0.8, 0.8)] \<and>
   returned_commands (PID (PIDController_init 2 5 0.001 0.3 0.2 180 0 0.5 170))
     [(0, 0.9, 0.9), (0.1, 0.8, 0.8)] = [170, 170] \<and>
   list_all (\<lambda>c. \<exists>s1. c = PID s1 \<and> integral s1 = 170 \<and> command_prev s1 = command_sat_prev s1)
     (states_after (PID (PIDController_init 2 5 0.001 0.3 0.2 180 0 0.5 170))
        [(0, 0.9, 0.9), (0.1, 0.8, 0.8)])"
proof -
  have a: "\<forall>call \<in> set [(0, 0.9, 0.9), (0.1, 0.8, 0.8 :: real)]. fst (snd call) = snd (snd call)"
    by simp
  have b: "limits_never_active (PID (PIDController_init 2 5 0.001 0.3 0.2 180 0 0.5 170))
     [(0, 0.9, 0.9), (0.1, 0.8, 0.8)]"
    by (simp add: PIDController_init_def PID_update_def PID_command_def PID_integrate_def
        filtered_derivative_def py_div_def denominator_def saturation_def rate_limiting_def
        saturation_active_def rate_limiting_active_def Let_def)
  have c: "returned_commands (PID (PIDController_init 2 5 0.001 0.3 0.2 180 0 0.5 170))
     [(0, 0.9, 0.9), (0.1, 0.8, 0.8)] = [170, 170]"
    by (simp add: PIDController_init_def PID_update_def PID_command_def PID_integrate_def
        filtered_derivative_def py_div_def denominator_def saturation_def rate_limiting_def Let_def)
  from PID_zero_error_at_rest [OF a b] b c show ?thesis
    unfolding list_all_iff by blast
qed

subsection \<open>The supertwisting controller without gains\<close>

lemma STC_holding_step:
  assumes "update (STC s) t m sp = Inr (c1, u)"
    and "STC_holding u0 s" and "STCController.t_prev s \<le> t"
  shows "u = u0 \<and> (\<exists>s1. c1 = STC s1 \<and> STC_holding u0 s1 \<and> STCController.t_prev s1 = t)"
  using assms
  by (auto simp add: STC_holding_def STC_update_def STC_command_def filtered_derivative_cases
      Let_def saturation_inactive rate_limiting_inactive split: if_splits)

lemma STC_holding_run:
  assumes "STC_holding u0 s" and "sorted (STCController.t_prev s # map fst calls)"
  shows "(\<forall>u \<in> set (returned_commands (STC s) calls). u = u0) \<and>
         (\<forall>c \<in> set (states_after (STC s) calls). \<exists>s1. c = STC s1 \<and> u_acc s1 = u0)"
  using assms
proof (induction calls arbitrary: s)
  case Nil
  then show ?case by simp
next
  case (Cons call calls)
  obtain t m sp where call: "call = (t, m, sp)" by (cases call) auto
  show ?case
  proof (cases "update (STC s) t m sp")
    case (Inl e)
    then show ?thesis by (simp add: call)
  next
    case (Inr p)
    obtain c1 u where p: "p = (c1, u)" by (cases p) auto
    have step: "update (STC s) t m sp = Inr (c1, u)" using Inr p by simp
    have le: "STCController.t_prev s \<le> t" using Cons.prems(2) by (simp add: call)
    from STC_holding_step [OF step Cons.prems(1) le] obtain s1 where
      u: "u = u0" and c1: "c1 = STC s1" and h1: "STC_holding u0 s1"
      and t1: "STCController.t_prev s1 = t"
      by blast
    have srt: "sorted (STCController.t_prev s1 # map fst calls)"
      using Cons.prems(2) t1 by (simp add: call)
    have acc: "u_acc s1 = u0" using h1 by (simp add: STC_holding_def)
    from Cons.IH [OF h1 srt] show ?thesis
      using step u c1 acc by (simp add: call del: update.simps)
  qed
qed

text \<open>
  Claim C9, as amended. The claim as stated fails by the design of the limiter: with \<open>u0\<close>
  above \<open>max_val\<close> the saturation replaces the command \<open>u0\<close>, and a call at a time before the
  previous one, or a negative \<open>max_rate\<close>, lets the rate limiter move it.

  What holds: a supertwisting controller constructed with \<open>W = 0\<close> and \<open>lambda = 0\<close>, with
  \<open>min_val \<le> u0 \<le> max_val\<close> and \<open>max_rate \<ge> 0\<close>, called at times that do not decrease from 0
  on, returns \<open>u0\<close> from every call that returns, for all measurements and setpoints, and its
  accumulator stays at \<open>u0\<close>; with \<open>T_C\<close> not zero every call returns.
\<close>

theorem STC_without_gains_holds_u0:
  assumes "minv \<le> u0" and "u0 \<le> maxv" and "0 \<le> rate" and "sorted (0 # map fst calls)"
  shows "(\<forall>u \<in> set (returned_commands (STC (STCController_init 0 0 tc maxv minv rate u0)) calls).
            u = u0) \<and>
         (\<forall>c \<in> set (states_after (STC (STCController_init 0 0 tc maxv minv rate u0)) calls).
            \<exists>s1. c = STC s1 \<and> u_acc s1 = u0) \<and>
         (tc \<noteq> 0 \<longrightarrow>
            length (returned_commands (STC (STCController_init 0 0 tc maxv minv rate u0)) calls)
              = length calls)"
proof -
  have h: "STC_holding u0 (STCController_init 0 0 tc maxv minv rate u0)"
    using assms(1,2,3) by (simp add: STC_holding_def STCController_init_def)
  have srt: "sorted (STCController.t_prev (STCController_init 0 0 tc maxv minv rate u0) # map fst calls)"
    using assms(4) by (simp add: STCController_init_def)
  have len: "tc \<noteq> 0 \<longrightarrow>
      length (returned_commands (STC (STCController_init 0 0 tc maxv minv rate u0)) calls)
        = length calls"
    using returned_commands_length [of "STC (STCController_init 0 0 tc maxv minv rate u0)" calls]
    by (simp add: STCController_init_def)
  from STC_holding_run [OF h srt] len show ?thesis by blast
qed

theorem STC_without_gains_holds_u0_witness:
  "sorted ((0::real) # map fst [(0, 1, 0.9), (0.1, 1.2, 0.9 :: real)]) \<and>
   list_all (\<lambda>u. u = 170)
     (returned_commands (STC (STCController_init 0 0 0.5 180 0 0.5 170))
        [(0, 1, 0.9), (0.1, 1.2, 0.9)]) \<and>
   length (returned_commands (STC (STCController_init 0 0 0.5 180 0 0.5 170))
             [(0, 1, 0.9), (0.1, 1.2, 0.9)]) = 2"
proof -
  have a: "sorted ((0::real) # map fst [(0, 1, 0.9), (0.1, 1.2, 0.9 :: real)])"
    by simp
  have b: "(0::real) \<le> 170" "(170::real) \<le> 180" "(0::real) \<le> 0.5"
    by simp_all
  from STC_without_gains_holds_u0 [OF b a, of "0.5"] a show ?thesis
    unfolding list_all_iff by (simp del: returned_commands.simps states_after.simps)
qed

theorem STC_without_gains_leaves_u0:
  "returned_commands (STC (STCController_init 0 0 0.5 180 0 0.5 200)) [(1, 1, 0.9)] = [199.5] \<and>
   (199.5 :: real) \<noteq> 200 \<and>
   returned_commands (STC (STCController_init 0 0 0.5 180 0 0.5 170)) [(1, 1, 0.9), (0, 1, 0.9)]
     = [170, 169.5] \<and>
   returned_commands (STC (STCController_init 0 0 0.5 180 0 (- 0.5) 170)) [(1, 1, 0.9)] = [169.5] \<and>
   (169.5 :: real) \<noteq> 170"
  by (simp add: STCController_init_def STC_update_def STC_command_def filtered_derivative_def
      py_div_def denominator_def saturation_def rate_limiting_def Let_def)

subsection \<open>A call at the stored previous time\<close>

text \<open>
  Claim C10. A call at the stored previous time returns the previous saturated command when
  \<open>T_C\<close> is not zero (lemma \<open>update_zero_elapsed\<close>). On a controller of either class built with
  \<open>T_C = 0\<close> the same call, here the first call at \<open>t = 0\<close>, returns no command: it is the
  division by zero of claim C4 (with numpy scalars, the NaN of that division is what the call
  returns).
\<close>

theorem update_at_time_zero_raises:
  "update (STC (STCController_init 0.001 0.49 0 180 0 0.5 170)) 0 0.9 0.9 = Inl ZeroDivisionError \<and>
   update (PID (PIDController_init 2 5 0.001 0.3 0 180 0 0.5 170)) 0 0.9 0.9 = Inl ZeroDivisionError"
  by (simp add: STCController_init_def STC_update_def STC_command_def PIDController_init_def
      PID_update_def PID_command_def PID_integrate_def filtered_derivative_def py_div_def
      denominator_def Let_def)

section \<open>Properties of run.py\<close>

subsection \<open>The loop\<close>

lemma bind_assoc: "bind (bind m f) g = bind m (\<lambda>a. bind (f a) g)"
  by (cases m) simp_all

lemma for_loop_append:
  "for_loop body (xs @ ys) s = bind (for_loop body xs s) (for_loop body ys)"
proof (induction xs arbitrary: s)
  case Nil
  then show ?case by simp
next
  case (Cons i xs)
  show ?case
    by (cases "body i s") (simp_all add: Cons.IH)
qed

lemma for_loop_upt_Suc:
  "for_loop body [0..<Suc k] s = bind (for_loop body [0..<k] s) (body k)"
proof -
  have "for_loop body [k] = body k"
  proof
    fix s' show "for_loop body [k] s' = body k s'"
      by (cases "body k s'") simp_all
  qed
  then show ?thesis by (simp add: for_loop_append)
qed







subsection \<open>Runs that return\<close>

text \<open>
  On complete reactor inputs, a supported drum count, an initial state of twelve entries, a
  reference as long as the non-empty time grid and a controller with \<open>T_C\<close> not zero, no step
  raises and the simulation returns its arrays.
\<close>

lemma reactor_dae_returns:
  assumes "reactor_inputs_ok r xv" and "num_drums r \<in> {8, 4, 2, 1}"
  shows "\<exists>dx rho. reactor_dae r t xv u = Inr (dx, rho) \<and> length dx = 12"
  using assms
  by (auto simp add: reactor_inputs_ok_def reactor_dae_def Let_def)

lemma reactor_inputs_ok_length:
  "reactor_inputs_ok r xv \<Longrightarrow> 12 \<le> length ys \<Longrightarrow> reactor_inputs_ok r ys"
  by (simp add: reactor_inputs_ok_def)

lemma loop_body_returns:
  assumes "reactor_inputs_ok r x0" and "num_drums r \<in> {8, 4, 2, 1}"
    and "field_T_C c \<noteq> 0"
    and "Suc i < length ref" and "Suc i < length (state_history h)"
    and "length (state_history h ! i) = 12"
  shows "\<exists>c' h'. loop_body r time ref dt i (c, h) = Inr (c', h') \<and>
           field_T_C c' \<noteq> 0 \<and>
           length (state_history h') = length (state_history h) \<and>
           length (state_history h' ! Suc i) = 12"
proof -
  have ok: "reactor_inputs_ok r (state_history h ! i)"
    using assms(1,6) by (simp add: reactor_inputs_ok_length)
  from reactor_dae_returns [OF ok assms(2)] obtain dx rho where
    dae: "reactor_dae r (time ! i) (state_history h ! i) (control_history h ! i) = Inr (dx, rho)"
    and dx: "length dx = 12"
    by blast
  let ?row = "map2 (\<lambda>a d. a + d * dt) (state_history h ! i) dx"
  obtain c' u' where upd: "update c (time ! i) (?row ! 0) (ref ! Suc i) = Inr (c', u')"
    using update_returns [of "time ! i" c "?row ! 0" "ref ! Suc i"] assms(3) by blast
  have tc: "field_T_C c' \<noteq> 0"
    using update_Inr(5) [OF upd] assms(3) by simp
  have "loop_body r time ref dt i (c, h) =
          Inr (c', h\<lparr> rho_history := (rho_history h)[i := rho],
                      state_history := (state_history h)[Suc i := ?row],
                      control_history := (control_history h)[Suc i := u'] \<rparr>)"
    using dae dx upd assms(4,5,6)
    by (simp add: loop_body_def euler_def getidx_def Let_def)
  then show ?thesis
    using tc dx assms(5,6) by simp
qed

lemma for_loop_returns:
  assumes "reactor_inputs_ok r x0" and "num_drums r \<in> {8, 4, 2, 1}"
    and "field_T_C c \<noteq> 0"
    and "k < length ref" and "k < length (state_history h0)"
    and "length (state_history h0 ! 0) = 12"
  shows "\<exists>ck hk. for_loop (loop_body r time ref dt) [0..<k] (c, h0) = Inr (ck, hk) \<and>
           field_T_C ck \<noteq> 0 \<and>
           length (state_history hk) = length (state_history h0) \<and>
           length (state_history hk ! k) = 12"
  using assms(4,5)
proof (induction k)
  case 0
  then show ?case using assms(3,6) by simp
next
  case (Suc k)
  then obtain cm hm where
    before: "for_loop (loop_body r time ref dt) [0..<k] (c, h0) = Inr (cm, hm)"
    and tc: "field_T_C cm \<noteq> 0"
    and len: "length (state_history hm) = length (state_history h0)"
    and row: "length (state_history hm ! k) = 12"
    by auto
  have "Suc k < length (state_history hm)" using Suc.prems(2) len by simp
  from loop_body_returns [OF assms(1,2) tc Suc.prems(1) this row, of time dt]
  obtain c' h' where
    body: "loop_body r time ref dt k (cm, hm) = Inr (c', h')" and
    inv: "field_T_C c' \<noteq> 0" "length (state_history h') = length (state_history hm)"
      "length (state_history h' ! Suc k) = 12"
    by blast
  have "for_loop (loop_body r time ref dt) [0..<Suc k] (c, h0) = Inr (c', h')"
    unfolding for_loop_upt_Suc using before body by simp
  then show ?case
    using inv len by auto
qed

lemma simulate_returns:
  assumes "reactor_inputs_ok r x0" and "length x0 = 12" and "num_drums r \<in> {8, 4, 2, 1}"
    and "field_T_C c \<noteq> 0" and "time \<noteq> []" and "length ref = length time"
  shows "\<exists>cN h. simulate r c time ref dt x0 u0 = Inr (cN, h)"
proof -
  let ?nt = "length time"
  let ?h0 = "\<lparr> state_history = (replicate ?nt (replicate (length x0) 0))[0 := x0],
               control_history = (replicate ?nt 0)[0 := u0],
               rho_history = replicate ?nt 0 \<rparr>"
  have pos: "0 < ?nt" using assms(5) by simp
  have "\<exists>ck hk. for_loop (loop_body r time ref dt) [0..<?nt - 1] (c, ?h0) = Inr (ck, hk) \<and>
           field_T_C ck \<noteq> 0 \<and>
           length (state_history hk) = length (state_history ?h0) \<and>
           length (state_history hk ! (?nt - 1)) = 12"
    by (rule for_loop_returns [OF assms(1,3,4)]) (use pos assms(2,6) in simp_all)
  then obtain ck hk where
    loop: "for_loop (loop_body r time ref dt) [0..<?nt - 1] (c, ?h0) = Inr (ck, hk)"
    and len: "length (state_history hk) = ?nt"
    and row: "length (state_history hk ! (?nt - 1)) = 12"
    by auto
  have "state_history hk \<noteq> []" using len pos by auto
  then have "last (state_history hk) = state_history hk ! (?nt - 1)"
    using len by (simp add: last_conv_nth)
  then have "reactor_inputs_ok r (last (state_history hk))"
    using assms(1) row by (simp add: reactor_inputs_ok_length)
  from reactor_dae_returns [OF this assms(3)] obtain dx rho where
    "reactor_dae r (last time) (last (state_history hk)) (last (control_history hk)) = Inr (dx, rho)"
    by blast
  then show ?thesis
    using loop assms(5) by (simp add: simulate_def Let_def)
qed


subsection \<open>A run of one step\<close>



end
